theory Spec2Isabelle
  imports Main "HOL-Library.Sublist"
begin

section \<open>Python values and string primitives\<close>

text \<open>
  A Python \<open>str\<close> is a \<open>string\<close>; a \<open>char\<close> stands for a code point below 256.
  \<open>bytes\<close> is a list of 8-bit characters as well. \<open>Optional[str]\<close> is
  \<open>string option\<close>. An exception is a value of \<open>py_error\<close>, returned with \<open>Inl\<close>.
\<close>

datatype py_error =
    KeyError string
  | AttributeError string
  | ParseError
  | RequestError

type_synonym bytes = "char list"

text \<open>The truth value of an \<open>Optional[str]\<close>: \<open>None\<close> and \<open>""\<close> are false.\<close>

definition truthy :: "string option \<Rightarrow> bool" where
  "truthy x = (case x of None \<Rightarrow> False | Some s \<Rightarrow> s \<noteq> [])"

text \<open>\<open>x or y\<close> between two optional strings, and \<open>x or "literal"\<close>.\<close>

definition py_or :: "string option \<Rightarrow> string option \<Rightarrow> string option" where
  "py_or x y = (if truthy x then x else y)"

definition or_default :: "string option \<Rightarrow> string \<Rightarrow> string" where
  "or_default x d = (case x of None \<Rightarrow> d | Some s \<Rightarrow> if s = [] then d else s)"

text \<open>An f-string field \<open>{x}\<close> of an optional string: \<open>None\<close> prints as \<open>None\<close>.\<close>

definition fmt :: "string option \<Rightarrow> string" where
  "fmt x = (case x of None \<Rightarrow> ''None'' | Some s \<Rightarrow> s)"

text \<open>
  \<open>str.lower\<close> on code points below 256: the ASCII capitals and the Latin-1 capitals
  (\<open>0xC0\<close> to \<open>0xDE\<close> without the multiplication sign \<open>0xD7\<close>) move up by 32.
\<close>

definition lower_char :: "char \<Rightarrow> char" where
  "lower_char c =
     (let n = (of_char c :: nat) in
      if (65 \<le> n \<and> n \<le> 90) \<or> (192 \<le> n \<and> n \<le> 222 \<and> n \<noteq> 215)
      then char_of (n + 32) else c)"

definition str_lower :: "string \<Rightarrow> string" where
  "str_lower s = map lower_char s"

text \<open>\<open>needle in haystack\<close> on strings: a contiguous occurrence.\<close>

fun str_in :: "string \<Rightarrow> string \<Rightarrow> bool" where
  "str_in n [] = (n = [])"
| "str_in n (c # cs) = (prefix n (c # cs) \<or> str_in n cs)"

text \<open>\<open>sep.join(xs)\<close>.\<close>

fun py_join :: "string \<Rightarrow> string list \<Rightarrow> string" where
  "py_join sep [] = []"
| "py_join sep [x] = x"
| "py_join sep (x # y # ys) = x @ sep @ py_join sep (y # ys)"

text \<open>\<open>base64.b64encode\<close>: three bytes give four sextets, the tail is padded.\<close>

definition b64_alphabet :: string where
  "b64_alphabet = ''ABCDEFGHIJKLMNOPQRSTUVWXYZabcdefghijklmnopqrstuvwxyz0123456789+/''"

definition b64_char :: "nat \<Rightarrow> char" where
  "b64_char i = b64_alphabet ! (i mod 64)"

fun b64encode :: "bytes \<Rightarrow> string" where
  "b64encode (a # b # c # rest) =
     (let n = (of_char a :: nat) * 65536 + of_char b * 256 + of_char c
      in [b64_char (n div 262144), b64_char (n div 4096), b64_char (n div 64), b64_char n]
         @ b64encode rest)"
| "b64encode [a, b] =
     (let n = (of_char a :: nat) * 65536 + of_char b * 256
      in [b64_char (n div 262144), b64_char (n div 4096), b64_char (n div 64), CHR ''=''])"
| "b64encode [a] =
     (let n = (of_char a :: nat) * 65536
      in [b64_char (n div 262144), b64_char (n div 4096), CHR ''='', CHR ''=''])"
| "b64encode [] = []"

section \<open>assets.py: the web archive\<close>

text \<open>
  A sub-resource is the dictionary \<open>r\<close> of the property list; the three keys the code
  reads with \<open>r.get\<close> may each be absent. The archive is the dictionary \<open>wa\<close>, whose key
  \<open>WebSubresources\<close> may be absent. The state of the archive file is a
  \<open>web_archive option\<close>: \<open>None\<close> when \<open>open\<close> or \<open>plistlib.load\<close> raises.
\<close>

record web_resource =
  WebResourceURL :: "string option"
  WebResourceMIMEType :: "string option"
  WebResourceData :: "bytes option"

record web_archive =
  WebSubresources :: "web_resource list option"

definition b64_uri :: "bytes \<Rightarrow> string \<Rightarrow> string" where
  "b64_uri data mime = ''data:'' @ mime @ '';base64,'' @ b64encode data"

definition data_uri_from_wa :: "web_resource \<Rightarrow> string option \<Rightarrow> string" where
  "data_uri_from_wa r mime_override =
     (let mime = or_default mime_override
                   (case WebResourceMIMEType r of
                      None \<Rightarrow> ''application/octet-stream'' | Some m \<Rightarrow> m)
      in b64_uri (case WebResourceData r of None \<Rightarrow> [] | Some d \<Rightarrow> d) mime)"

text \<open>The test of one sub-resource: \<open>all(n.lower() in url for n in needles)\<close>.\<close>

definition resource_matches :: "string list \<Rightarrow> web_resource \<Rightarrow> bool" where
  "resource_matches needles r =
     (let url = str_lower (or_default (WebResourceURL r) [])
      in list_all (\<lambda>n. str_in (str_lower n) url) needles)"

text \<open>The \<open>for r in ...\<close> loop of \<open>_find_first_data_uri\<close>, returning at the first match.\<close>

fun scan_subresources :: "string list \<Rightarrow> string option \<Rightarrow> web_resource list \<Rightarrow> string option" where
  "scan_subresources needles mime_override [] = None"
| "scan_subresources needles mime_override (r # rs) =
     (if resource_matches needles r then Some (data_uri_from_wa r mime_override)
      else scan_subresources needles mime_override rs)"

definition find_first_data_uri ::
  "web_archive option \<Rightarrow> string list \<Rightarrow> string option \<Rightarrow> string option" where
  "find_first_data_uri archive_file needles mime_override =
     (case archive_file of
        None \<Rightarrow> None
      | Some wa \<Rightarrow>
          scan_subresources needles mime_override
            (case WebSubresources wa of None \<Rightarrow> [] | Some rs \<Rightarrow> rs))"

subsection \<open>The module's assets, computed from the archive file at import\<close>

definition LOGO_URI :: "web_archive option \<Rightarrow> string" where
  "LOGO_URI f =
     or_default (find_first_data_uri f [''ubs_'', ''logo'', ''semibold'', ''.svg''] None)
       ''https://www.ubs.com/etc/designs/fit/img/UBS_Logo_Semibold.svg''"

definition HERO_URI :: "web_archive option \<Rightarrow> string" where
  "HERO_URI f =
     or_default (find_first_data_uri f [''promotion'', ''image-l'', ''.jpg''] None)
       ''https://www.ubs.com/content/homepage/uk/en/new-promotions/gwr2025/jcr:content/promotion/image-l.3840.jpg/1750249353973.jpg''"

definition FONT_LT :: "web_archive option \<Rightarrow> string option" where
  "FONT_LT f =
     py_or (find_first_data_uri f [''frutiger'', ''-lt'', ''.woff2''] (Some ''font/woff2''))
           (find_first_data_uri f [''frutiger'', ''light'', ''.woff2''] (Some ''font/woff2''))"

definition FONT_RG :: "web_archive option \<Rightarrow> string option" where
  "FONT_RG f =
     py_or (py_or (find_first_data_uri f [''frutiger'', ''-rg'', ''.woff2''] (Some ''font/woff2''))
                  (find_first_data_uri f [''frutiger'', ''regular'', ''.woff2''] (Some ''font/woff2'')))
           (find_first_data_uri f [''frutiger'', ''roman'', ''.woff2''] (Some ''font/woff2''))"

definition FONT_MD :: "web_archive option \<Rightarrow> string option" where
  "FONT_MD f =
     py_or (find_first_data_uri f [''frutiger'', ''-md'', ''.woff2''] (Some ''font/woff2''))
           (find_first_data_uri f [''frutiger'', ''medium'', ''.woff2''] (Some ''font/woff2''))"

definition UBS_ICONS :: "web_archive option \<Rightarrow> string option" where
  "UBS_ICONS f =
     find_first_data_uri f [''ubs-homepagev3-font-icons'', ''.woff2''] (Some ''font/woff2'')"

subsection \<open>fontface_blocks\<close>

text \<open>
  One \<open>@font-face\<close> declaration, as the f-strings of \<open>fontface_blocks\<close> write it: they
  differ in the family, the weight, the \<open>font-display\<close> value and the source.
\<close>

definition font_face :: "string \<Rightarrow> string \<Rightarrow> string \<Rightarrow> string option \<Rightarrow> string" where
  "font_face family weight display src =
     ''@font-face{font-family:'' @ [CHR 0x27] @ family @ [CHR 0x27]
     @ '';font-style:normal;font-weight:'' @ weight
     @ '';font-display:'' @ display
     @ '';src:url('' @ fmt src @ '') format('woff2');}''"

text \<open>
  The list \<open>faces\<close> after the five \<open>if\<close> statements; the four arguments are the module
  globals \<open>FONT_LT\<close>, \<open>FONT_RG\<close>, \<open>FONT_MD\<close> and \<open>UBS_ICONS\<close>.
\<close>

definition fontface_faces ::
  "string option \<Rightarrow> string option \<Rightarrow> string option \<Rightarrow> string option \<Rightarrow> string list" where
  "fontface_faces lt rg md icons =
     (let faces0 = [];
          faces1 = (if truthy lt
                    then faces0 @ [font_face ''FrutigerforUBSWeb'' ''300'' ''swap'' lt] else faces0);
          faces2 = (if truthy rg
                    then faces1 @ [font_face ''FrutigerforUBSWeb'' ''400'' ''swap'' rg] else faces1);
          faces3 = (if truthy md
                    then faces2 @ [font_face ''FrutigerforUBSWeb'' ''500'' ''swap'' md] else faces2);
          faces4 = (if truthy lt \<and> \<not> truthy rg
                    then faces3 @ [font_face ''FrutigerforUBSWeb'' ''400'' ''swap'' lt] else faces3);
          faces5 = (if truthy icons
                    then faces4 @ [font_face ''ubs-icons'' ''300'' ''block'' icons] else faces4)
      in faces5)"

definition fontface_blocks ::
  "string option \<Rightarrow> string option \<Rightarrow> string option \<Rightarrow> string option \<Rightarrow> string" where
  "fontface_blocks lt rg md icons = py_join [CHR 0x0A] (fontface_faces lt rg md icons)"

subsection \<open>The lookup as the specification words it\<close>

text \<open>
  The sub-resources an archive stores, in their stored order; the test "the URL,
  case-folded, contains every lookup token as a substring" (the tokens are matched
  case-insensitively); and the data URI of a sub-resource: the override when one is
  supplied, else the declared MIME type, then the base64 payload.
\<close>

definition subresources :: "web_archive \<Rightarrow> web_resource list" where
  "subresources wa = (case WebSubresources wa of None \<Rightarrow> [] | Some rs \<Rightarrow> rs)"

definition spec_url_contains_all_tokens :: "string list \<Rightarrow> web_resource \<Rightarrow> bool" where
  "spec_url_contains_all_tokens tokens r =
     (\<forall>t \<in> set tokens. \<exists>p s.
        str_lower (case WebResourceURL r of None \<Rightarrow> [] | Some u \<Rightarrow> u) = p @ str_lower t @ s)"

definition spec_data_uri :: "web_resource \<Rightarrow> string option \<Rightarrow> string" where
  "spec_data_uri r override =
     ''data:''
     @ (if truthy override then fmt override
        else case WebResourceMIMEType r of None \<Rightarrow> ''application/octet-stream'' | Some m \<Rightarrow> m)
     @ '';base64,''
     @ b64encode (case WebResourceData r of None \<Rightarrow> [] | Some d \<Rightarrow> d)"

subsection \<open>A sample archive\<close>

definition res_hero :: web_resource where
  "res_hero = \<lparr>WebResourceURL = Some ''https://www.ubs.com/Hero.JPG'',
       WebResourceMIMEType = Some ''image/jpeg'', WebResourceData = Some ''abc''\<rparr>"

definition res_logo :: web_resource where
  "res_logo = \<lparr>WebResourceURL = Some ''https://www.ubs.com/UBS_Logo_Semibold.svg'',
       WebResourceMIMEType = Some ''image/svg+xml'', WebResourceData = Some ''a''\<rparr>"

definition res_logo_old :: web_resource where
  "res_logo_old = \<lparr>WebResourceURL = Some ''https://www.ubs.com/old/ubs_logo_semibold.svg'',
       WebResourceMIMEType = Some ''image/svg+xml'', WebResourceData = Some ''ab''\<rparr>"

definition wa_two_logos :: web_archive where
  "wa_two_logos = \<lparr>WebSubresources = Some [res_hero, res_logo, res_logo_old]\<rparr>"

definition logo_tokens :: "string list" where
  "logo_tokens = [''ubs_'', ''logo'', ''semibold'', ''.svg'']"

definition font_tokens :: "string list" where
  "font_tokens = [''frutiger'', ''.woff2'']"

subsection \<open>No match for a token list, and an archive without logo or fonts\<close>

definition spec_no_match :: "web_archive option \<Rightarrow> string list \<Rightarrow> bool" where
  "spec_no_match archive_file tokens =
     (case archive_file of
        None \<Rightarrow> True
      | Some wa \<Rightarrow> list_all (\<lambda>r. \<not> spec_url_contains_all_tokens tokens r) (subresources wa))"

definition wa_hero_only :: web_archive where
  "wa_hero_only = \<lparr>WebSubresources = Some [res_hero]\<rparr>"

section \<open>marketplace.py: filtering the catalog\<close>

text \<open>
  A catalog record is the dictionary \<open>app\<close> loaded from \<open>apps.json\<close>, with string
  values: a map from keys to strings. \<open>app[k]\<close> raises \<open>KeyError\<close> on an absent key.
  The criteria are the values of the four widgets: the text input and the three
  multi-selections, each a list of the selected options.
\<close>

type_synonym app = "string \<rightharpoonup> string"

record criteria =
  search_query :: string
  selected_ai_types :: "string list"
  selected_business_lines :: "string list"
  selected_functions :: "string list"

definition getitem :: "app \<Rightarrow> string \<Rightarrow> py_error + string" where
  "getitem app k = (case app k of None \<Rightarrow> Inl (KeyError k) | Some v \<Rightarrow> Inr v)"

text \<open>
  One statement \<open>if active and <test of app[key]>: continue\<close>. \<open>and\<close> reads
  \<open>app[key]\<close> only when \<open>active\<close> is true. The result is \<open>Inr True\<close> when
  \<open>continue\<close> is taken.
\<close>

definition skip_if :: "bool \<Rightarrow> app \<Rightarrow> string \<Rightarrow> (string \<Rightarrow> bool) \<Rightarrow> py_error + bool" where
  "skip_if active app key rejects =
     (if active
      then (case getitem app key of Inl e \<Rightarrow> Inl e | Inr v \<Rightarrow> Inr (rejects v))
      else Inr False)"

text \<open>
  The body of the loop on one record: the four statements in their order. \<open>Inr True\<close>
  when the record is appended, \<open>Inr False\<close> when a \<open>continue\<close> is taken.
\<close>

definition loop_body :: "criteria \<Rightarrow> app \<Rightarrow> py_error + bool" where
  "loop_body c app =
     (case skip_if (search_query c \<noteq> []) app ''title''
             (\<lambda>v. \<not> str_in (str_lower (search_query c)) (str_lower v)) of
        Inl e \<Rightarrow> Inl e
      | Inr True \<Rightarrow> Inr False
      | Inr False \<Rightarrow>
     (case skip_if (selected_ai_types c \<noteq> []) app ''ai_type''
             (\<lambda>v. v \<notin> set (selected_ai_types c)) of
        Inl e \<Rightarrow> Inl e
      | Inr True \<Rightarrow> Inr False
      | Inr False \<Rightarrow>
     (case skip_if (selected_business_lines c \<noteq> []) app ''business_line''
             (\<lambda>v. v \<notin> set (selected_business_lines c)) of
        Inl e \<Rightarrow> Inl e
      | Inr True \<Rightarrow> Inr False
      | Inr False \<Rightarrow>
     (case skip_if (selected_functions c \<noteq> []) app ''function''
             (\<lambda>v. v \<notin> set (selected_functions c)) of
        Inl e \<Rightarrow> Inl e
      | Inr True \<Rightarrow> Inr False
      | Inr False \<Rightarrow> Inr True))))"

text \<open>The \<open>for app in app_cards\<close> loop; \<open>filtered\<close> is the list built so far.\<close>

fun filter_loop :: "criteria \<Rightarrow> app list \<Rightarrow> app list \<Rightarrow> py_error + app list" where
  "filter_loop c [] filtered = Inr filtered"
| "filter_loop c (app # rest) filtered =
     (case loop_body c app of
        Inl e \<Rightarrow> Inl e
      | Inr True \<Rightarrow> filter_loop c rest (filtered @ [app])
      | Inr False \<Rightarrow> filter_loop c rest filtered)"

definition filtered_apps :: "criteria \<Rightarrow> app list \<Rightarrow> py_error + app list" where
  "filtered_apps c app_cards = filter_loop c app_cards []"

subsection \<open>The filter as the specification words it\<close>

text \<open>
  A record carries the four fields the filter reads. The predicate of the
  specification: the search text is empty or the title contains it case-insensitively,
  and each selection is empty or holds the record's value; an absent field matches no
  active filter.
\<close>

definition has_filter_fields :: "app \<Rightarrow> bool" where
  "has_filter_fields app =
     (app ''title'' \<noteq> None \<and> app ''ai_type'' \<noteq> None
      \<and> app ''business_line'' \<noteq> None \<and> app ''function'' \<noteq> None)"

definition spec_search_ok :: "criteria \<Rightarrow> app \<Rightarrow> bool" where
  "spec_search_ok c app =
     (search_query c = []
      \<or> (case app ''title'' of
            None \<Rightarrow> False
          | Some t \<Rightarrow> sublist (str_lower (search_query c)) (str_lower t)))"

definition spec_member_ok :: "string list \<Rightarrow> app \<Rightarrow> string \<Rightarrow> bool" where
  "spec_member_ok selection app key =
     (selection = []
      \<or> (case app key of None \<Rightarrow> False | Some v \<Rightarrow> v \<in> set selection))"

definition spec_passes :: "criteria \<Rightarrow> app \<Rightarrow> bool" where
  "spec_passes c app =
     (spec_search_ok c app
      \<and> spec_member_ok (selected_ai_types c) app ''ai_type''
      \<and> spec_member_ok (selected_business_lines c) app ''business_line''
      \<and> spec_member_ok (selected_functions c) app ''function'')"

subsection \<open>A sample catalog and sample criteria\<close>

definition app_risk :: app where
  "app_risk = [''title'' \<mapsto> ''Risk Summarizer'', ''ai_type'' \<mapsto> ''NLP'',
               ''business_line'' \<mapsto> ''Investment Bank'', ''function'' \<mapsto> ''Research'']"

definition app_kyc :: app where
  "app_kyc = [''title'' \<mapsto> ''KYC Assistant'', ''ai_type'' \<mapsto> ''Predictive Analytics'',
              ''business_line'' \<mapsto> ''Wealth Management'', ''function'' \<mapsto> ''KYC & Risk'']"

definition app_no_ai_type :: app where
  "app_no_ai_type = [''title'' \<mapsto> ''KYC Assistant'',
              ''business_line'' \<mapsto> ''Wealth Management'', ''function'' \<mapsto> ''KYC & Risk'']"

definition app_no_title :: app where
  "app_no_title = [''ai_type'' \<mapsto> ''Predictive Analytics'',
              ''business_line'' \<mapsto> ''Wealth Management'', ''function'' \<mapsto> ''KYC & Risk'']"

definition crit_empty :: criteria where
  "crit_empty = \<lparr>search_query = [], selected_ai_types = [],
                  selected_business_lines = [], selected_functions = []\<rparr>"

definition crit_kyc :: criteria where
  "crit_kyc = \<lparr>search_query = ''kyc'', selected_ai_types = [],
                selected_business_lines = [], selected_functions = []\<rparr>"

definition crit_ib :: criteria where
  "crit_ib = \<lparr>search_query = [], selected_ai_types = [],
               selected_business_lines = [''Investment Bank''], selected_functions = []\<rparr>"

definition crit_nlp :: criteria where
  "crit_nlp = \<lparr>search_query = [], selected_ai_types = [''NLP''],
                selected_business_lines = [], selected_functions = []\<rparr>"

section \<open>helpers.py: signed links and the card renderer\<close>

text \<open>
  \<open>str.strip\<close> removes the white space of \<open>str.isspace\<close> at both ends; below 256
  these are the code points 9 to 13, 28 to 32, 133 and 160. \<open>html.escape\<close> replaces
  the ampersand, the angle brackets and both quotes.
\<close>

definition is_space :: "char \<Rightarrow> bool" where
  "is_space c =
     (let n = (of_char c :: nat)
      in (9 \<le> n \<and> n \<le> 13) \<or> (28 \<le> n \<and> n \<le> 32) \<or> n = 133 \<or> n = 160)"

definition str_strip :: "string \<Rightarrow> string" where
  "str_strip s = rev (dropWhile is_space (rev (dropWhile is_space s)))"

definition html_escape_char :: "char \<Rightarrow> string" where
  "html_escape_char c =
     (if c = CHR ''&'' then ''&amp;''
      else if c = CHR ''<'' then ''&lt;''
      else if c = CHR ''>'' then ''&gt;''
      else if c = CHR 0x22 then ''&quot;''
      else if c = CHR 0x27 then ''&#x27;''
      else [c])"

definition html_escape :: "string \<Rightarrow> string" where
  "html_escape s = concat (map html_escape_char s)"

text \<open>
  The three environment variables, each possibly unset. The vendor's
  \<open>generate_blob_sas\<close> is a parameter: given the account name, the container name, the
  blob name and the account key (the permission and the one-hour expiry are fixed by
  the call) it returns a token, or raises, with the text of the exception. What
  \<open>st.error\<close> and \<open>st.warning\<close> show is a list of messages, one constructor for each
  call in the source.
\<close>

record azure_env =
  account_name :: "string option"
  account_key :: "string option"
  container_name :: "string option"

type_synonym sas_generator = "string \<Rightarrow> string \<Rightarrow> string \<Rightarrow> string \<Rightarrow> string + string"

datatype ui_message =
    Error_missing_environment
  | Error_generating_sas string
  | Warning_no_signed_url string

definition get_signed_url ::
  "azure_env \<Rightarrow> sas_generator \<Rightarrow> string \<Rightarrow> ui_message list \<times> string option" where
  "get_signed_url env generate_blob_sas blob_name =
     (if \<not> truthy (account_name env) \<or> \<not> truthy (account_key env)
         \<or> \<not> truthy (container_name env)
      then ([Error_missing_environment], None)
      else (case generate_blob_sas (fmt (account_name env)) (fmt (container_name env))
                   blob_name (fmt (account_key env)) of
              Inr sas_token \<Rightarrow>
                ([], Some (''https://'' @ fmt (account_name env) @ ''.blob.core.windows.net/''
                           @ fmt (container_name env) @ ''/'' @ blob_name @ ''?'' @ sas_token))
            | Inl e \<Rightarrow> ([Error_generating_sas e], None)))"

text \<open>\<open>(app.get(key) or "").strip()\<close>.\<close>

definition get_stripped :: "app \<Rightarrow> string \<Rightarrow> string" where
  "get_stripped app key = str_strip (or_default (app key) [])"

text \<open>
  The block \<open>if demo_url: ...\<close>: the messages shown and the value of \<open>demo_url\<close>
  after it.
\<close>

definition sign_demo_url ::
  "azure_env \<Rightarrow> sas_generator \<Rightarrow> string \<Rightarrow> ui_message list \<times> string" where
  "sign_demo_url env generate_blob_sas demo_url =
     (if demo_url \<noteq> []
      then (case get_signed_url env generate_blob_sas demo_url of
              (shown, azure_demo_url) \<Rightarrow>
                if truthy azure_demo_url then (shown, fmt azure_demo_url)
                else (shown @ [Warning_no_signed_url demo_url], demo_url))
      else ([], demo_url))"

definition chev :: string where
  \<open>chev = ''<svg class="ubs-chev" viewBox="0 0 16 16" aria-hidden="true" focusable="false"><path d="M5 3l5 5-5 5"></path></svg>''\<close>

text \<open>The three f-strings of the actions, as functions of the escaped link.\<close>

definition open_app_action :: "string \<Rightarrow> string" where
  "open_app_action href =
     ''<a href='' @ [CHR 0x27] @ href @ [CHR 0x27]
     @ '' target='_blank' rel='noopener noreferrer' class='ubs-btn-primary'>Open app</a>''"

definition watch_demo_action :: "string \<Rightarrow> string" where
  "watch_demo_action href =
     ''<a  href='' @ [CHR 0x27] @ href @ [CHR 0x27] @ '' >Watch demo '' @ chev @ ''</a>''"

definition read_docs_action :: "string \<Rightarrow> string" where
  "read_docs_action href =
     ''<a  href='' @ [CHR 0x27] @ href @ [CHR 0x27]
     @ '' target='_blank' rel='noopener noreferrer'>Read docs '' @ chev @ ''</a>''"

text \<open>The list \<open>actions\<close> after its three \<open>if\<close> statements.\<close>

definition build_actions :: "string \<Rightarrow> string \<Rightarrow> string \<Rightarrow> string list" where
  "build_actions app_url demo_url docs_url =
     (let actions0 = [];
          actions1 = (if app_url \<noteq> [] then actions0 @ [open_app_action (html_escape app_url)]
                      else actions0);
          actions2 = (if demo_url \<noteq> [] then actions1 @ [watch_demo_action (html_escape demo_url)]
                      else actions1);
          actions3 = (if docs_url \<noteq> [] then actions2 @ [read_docs_action (html_escape docs_url)]
                      else actions2)
      in actions3)"

text \<open>The list \<open>tags_tokens\<close>, and the status label.\<close>

definition build_tags_tokens :: "string \<Rightarrow> string \<Rightarrow> string list" where
  "build_tags_tokens business_line function =
     (let tags0 = [];
          tags1 = (if business_line \<noteq> [] then tags0 @ [business_line] else tags0);
          tags2 = (if function \<noteq> [] then tags1 @ [function] else tags1)
      in tags2)"

definition status_label :: "string \<Rightarrow> string" where
  "status_label status_raw =
     (if status_raw \<in> set [''beta'', ''preview''] then ''Preview'' else [])"

text \<open>
  What \<open>render_app_card\<close> computes before it fills the template: the values the
  template shows, and the messages shown on the way. The image, the variant classes
  and the surrounding markup are not part of the model.
\<close>

record card =
  title :: string
  desc :: string
  alt :: string
  tags_tokens :: "string list"
  tags_html :: string
  status :: string
  status_html :: string
  actions :: "string list"
  actions_html :: string
  messages :: "ui_message list"

definition render_app_card :: "azure_env \<Rightarrow> sas_generator \<Rightarrow> app \<Rightarrow> card" where
  "render_app_card env generate_blob_sas app =
     (let t = html_escape (case app ''title'' of None \<Rightarrow> ''Untitled application'' | Some v \<Rightarrow> v);
          d = html_escape (case app ''description'' of None \<Rightarrow> [] | Some v \<Rightarrow> v);
          a = html_escape (case app ''alt'' of None \<Rightarrow> t | Some v \<Rightarrow> v);
          app_url = get_stripped app ''app_url'';
          signed = sign_demo_url env generate_blob_sas (get_stripped app ''demo_url'');
          docs_url = get_stripped app ''docs_url'';
          tags = build_tags_tokens (get_stripped app ''business_line'')
                   (get_stripped app ''function'');
          st = status_label (str_lower (get_stripped app ''status''));
          acts = build_actions app_url (snd signed) docs_url
      in \<lparr>title = t, desc = d, alt = a,
          tags_tokens = tags,
          tags_html =
            (if tags \<noteq> []
             then ''<div class='ubs-app-card__tags'>''
                  @ concat (map (\<lambda>x. ''<span class='ubs-app-card__tag'>'' @ html_escape x @ ''</span>'')
                              tags)
                  @ ''</div>''
             else []),
          status = st,
          status_html =
            (if st \<noteq> [] then ''<span class='ubs-app-card__status'>'' @ st @ ''</span>'' else []),
          actions = acts,
          actions_html =
            (if acts \<noteq> []
             then ''<div class='ubs-app-card__actions'>'' @ concat acts @ ''</div>'' else []),
          messages = fst signed\<rparr>)"

subsection \<open>Sample environments and cards\<close>

definition env_unset :: azure_env where
  "env_unset = \<lparr>account_name = None, account_key = None, container_name = None\<rparr>"



definition sas_token :: sas_generator where
  "sas_token account container blob key = Inr ''sig=abc''"


section \<open>assets.py: the search icon\<close>










subsection \<open>The elements below the root, and sample documents\<close>








subsection \<open>The font-face output as the specification words it\<close>

text \<open>
  The text of a declaration of the text family at a weight, and of the icon family; a
  declaration is emitted for an asset only when it is present (resolved and not
  empty). The declarations in the order of the specification: light at 300, regular
  at 400, medium at 500, light again at 400 when regular is absent, the icon font at
  300. The output puts each declaration after the first on a new line.
\<close>

definition spec_frutiger_face :: "string \<Rightarrow> string \<Rightarrow> string" where
  "spec_frutiger_face weight uri =
     ''@font-face{font-family:'FrutigerforUBSWeb';font-style:normal;font-weight:'' @ weight
     @ '';font-display:swap;src:url('' @ uri @ '') format('woff2');}''"

definition spec_icons_face :: "string \<Rightarrow> string" where
  "spec_icons_face uri =
     ''@font-face{font-family:'ubs-icons';font-style:normal;font-weight:300;font-display:block;src:url(''
     @ uri @ '') format('woff2');}''"

definition spec_if_present :: "string option \<Rightarrow> (string \<Rightarrow> string) \<Rightarrow> string list" where
  "spec_if_present asset face =
     (case asset of None \<Rightarrow> [] | Some uri \<Rightarrow> if uri = [] then [] else [face uri])"

definition spec_declarations ::
  "string option \<Rightarrow> string option \<Rightarrow> string option \<Rightarrow> string option \<Rightarrow> string list" where
  "spec_declarations light regular medium icons =
       spec_if_present light (spec_frutiger_face ''300'')
     @ spec_if_present regular (spec_frutiger_face ''400'')
     @ spec_if_present medium (spec_frutiger_face ''500'')
     @ (if spec_if_present regular (spec_frutiger_face ''400'') = []
        then spec_if_present light (spec_frutiger_face ''400'') else [])
     @ spec_if_present icons spec_icons_face"

fun spec_lines :: "string list \<Rightarrow> string" where
  "spec_lines [] = []"
| "spec_lines (d # ds) = d @ concat (map (\<lambda>x. CHR 0x0A # x) ds)"

subsection \<open>Records the renderer accepts and the filter cannot read\<close>

definition app_no_function :: app where
  "app_no_function = [''title'' \<mapsto> ''Risk Summarizer'', ''ai_type'' \<mapsto> ''NLP'',
                      ''business_line'' \<mapsto> ''Investment Bank'']"

definition app_no_business_line :: app where
  "app_no_business_line = [''title'' \<mapsto> ''Risk Summarizer'', ''ai_type'' \<mapsto> ''NLP'',
                           ''function'' \<mapsto> ''Research'']"

definition crit_research :: criteria where
  "crit_research = \<lparr>search_query = [], selected_ai_types = [],
                     selected_business_lines = [], selected_functions = [''Research'']\<rparr>"

section \<open>Properties of the string primitives\<close>

lemma str_in_iff: "str_in n h \<longleftrightarrow> (\<exists>p s. h = p @ n @ s)"
proof (induction h)
  case Nil
  then show ?case by auto
next
  case (Cons c cs)
  show ?case
  proof
    assume "str_in n (c # cs)"
    then consider "prefix n (c # cs)" | "str_in n cs" by auto
    then show "\<exists>p s. c # cs = p @ n @ s"
    proof cases
      case 1
      then obtain s where "c # cs = n @ s" by (auto simp: prefix_def)
      then have "c # cs = [] @ n @ s" by simp
      then show ?thesis by blast
    next
      case 2
      with Cons.IH obtain p s where "cs = p @ n @ s" by blast
      then have "c # cs = (c # p) @ n @ s" by simp
      then show ?thesis by blast
    qed
  next
    assume "\<exists>p s. c # cs = p @ n @ s"
    then obtain p s where eq: "c # cs = p @ n @ s" by blast
    show "str_in n (c # cs)"
    proof (cases p)
      case Nil
      with eq have "prefix n (c # cs)" by (simp add: prefix_def)
      then show ?thesis by simp
    next
      case (Cons a p')
      with eq have "cs = p' @ n @ s" by simp
      with Cons.IH have "str_in n cs" by blast
      then show ?thesis by simp
    qed
  qed
qed

lemma b64encode_samples:
  "b64encode ''abc'' = ''YWJj'' \<and> b64encode ''ab'' = ''YWI='' \<and> b64encode ''a'' = ''YQ==''"
  by (simp add: b64_char_def b64_alphabet_def)

section \<open>Properties of the archive lookup\<close>

lemma resource_matches_iff:
  "resource_matches needles r \<longleftrightarrow> spec_url_contains_all_tokens needles r"
  by (simp add: resource_matches_def spec_url_contains_all_tokens_def or_default_def str_in_iff
        list_all_iff Let_def split: option.splits)

lemma data_uri_from_wa_eq: "data_uri_from_wa r mo = spec_data_uri r mo"
  by (simp add: data_uri_from_wa_def spec_data_uri_def or_default_def b64_uri_def truthy_def
        fmt_def split: option.splits)

lemma scan_first:
  "\<forall>x\<in>set pre. \<not> resource_matches needles x \<Longrightarrow> resource_matches needles r \<Longrightarrow>
   scan_subresources needles mo (pre @ r # post) = Some (data_uri_from_wa r mo)"
  by (induction pre) auto

lemma scan_none:
  "\<forall>x\<in>set rs. \<not> resource_matches needles x \<Longrightarrow> scan_subresources needles mo rs = None"
  by (induction rs) auto

text \<open>
  Claim C6. The archive lookup returns nothing when the archive file is missing or
  unreadable. On a readable archive it returns the base64 data URI (the override when
  supplied, else the declared MIME type) of the first sub-resource, in stored order,
  whose lower-cased URL contains every lower-cased token: whatever follows that
  sub-resource in the list, matching or not, does not change the result. When no
  sub-resource matches it returns nothing. The lookup is a total function, so it never
  raises.
\<close>

theorem find_first_data_uri_first_match:
  "find_first_data_uri None tokens override = None
   \<and> (\<forall>pre r post.
         subresources wa = pre @ r # post
         \<and> (\<forall>x \<in> set pre. \<not> spec_url_contains_all_tokens tokens x)
         \<and> spec_url_contains_all_tokens tokens r
         \<longrightarrow> find_first_data_uri (Some wa) tokens override = Some (spec_data_uri r override))
   \<and> ((\<forall>x \<in> set (subresources wa). \<not> spec_url_contains_all_tokens tokens x)
         \<longrightarrow> find_first_data_uri (Some wa) tokens override = None)"
proof (intro conjI allI impI)
  show "find_first_data_uri None tokens override = None"
    by (simp add: find_first_data_uri_def)
next
  fix pre r post
  assume a: "subresources wa = pre @ r # post
         \<and> (\<forall>x \<in> set pre. \<not> spec_url_contains_all_tokens tokens x)
         \<and> spec_url_contains_all_tokens tokens r"
  then have "scan_subresources tokens override (pre @ r # post)
               = Some (data_uri_from_wa r override)"
    by (intro scan_first) (simp_all add: resource_matches_iff)
  with a show "find_first_data_uri (Some wa) tokens override = Some (spec_data_uri r override)"
    by (simp add: find_first_data_uri_def subresources_def data_uri_from_wa_eq)
next
  assume "\<forall>x \<in> set (subresources wa). \<not> spec_url_contains_all_tokens tokens x"
  then have "scan_subresources tokens override (subresources wa) = None"
    by (intro scan_none) (simp add: resource_matches_iff)
  then show "find_first_data_uri (Some wa) tokens override = None"
    by (simp add: find_first_data_uri_def subresources_def)
qed

text \<open>
  The sample archive holds a hero image and then two logos that both match the logo
  tokens: the earlier logo wins. No sub-resource matches the font tokens.
\<close>

theorem find_first_data_uri_first_match_witness:
  "find_first_data_uri (Some wa_two_logos) logo_tokens None
     = Some ''data:image/svg+xml;base64,YQ==''
   \<and> find_first_data_uri (Some wa_two_logos) font_tokens (Some ''font/woff2'') = None"
proof -
  have split: "subresources wa_two_logos = [res_hero] @ res_logo # [res_logo_old]"
    by (simp add: subresources_def wa_two_logos_def)
  have m0: "\<not> resource_matches logo_tokens res_hero" by code_simp
  have m1: "resource_matches logo_tokens res_logo" by code_simp
  have f0: "\<not> resource_matches font_tokens res_hero" by code_simp
  have f1: "\<not> resource_matches font_tokens res_logo" by code_simp
  have f2: "\<not> resource_matches font_tokens res_logo_old" by code_simp
  have uri: "spec_data_uri res_logo None = ''data:image/svg+xml;base64,YQ==''"
    by (simp add: spec_data_uri_def res_logo_def truthy_def b64_char_def b64_alphabet_def)
  have none: "\<forall>x \<in> set (subresources wa_two_logos). \<not> spec_url_contains_all_tokens font_tokens x"
    using f0 f1 f2 unfolding split resource_matches_iff by simp
  have first: "subresources wa_two_logos = [res_hero] @ res_logo # [res_logo_old]
      \<and> (\<forall>x \<in> set [res_hero]. \<not> spec_url_contains_all_tokens logo_tokens x)
      \<and> spec_url_contains_all_tokens logo_tokens res_logo"
    using split m0 m1 unfolding resource_matches_iff by simp
  have "find_first_data_uri (Some wa_two_logos) logo_tokens None
          = Some (spec_data_uri res_logo None)"
    using find_first_data_uri_first_match [of logo_tokens None wa_two_logos] first by blast
  moreover have "find_first_data_uri (Some wa_two_logos) font_tokens (Some ''font/woff2'') = None"
    using find_first_data_uri_first_match [of font_tokens "Some ''font/woff2''" wa_two_logos] none
    by blast
  ultimately show ?thesis by (simp only: uri simp_thms)
qed

text \<open>
  Claim C10. With an empty token list, \<open>all\<close> over no token is true for every
  candidate, so on a readable archive with a non-empty sub-resource list the lookup
  returns the data URI of the very first sub-resource: \<open>data:\<close>, the override or
  else the declared MIME type, \<open>;base64,\<close> and the base64 text of its payload.
\<close>

theorem find_first_data_uri_empty_needles:
  "find_first_data_uri (Some \<lparr>WebSubresources = Some (r # rs)\<rparr>) [] override
     = Some (spec_data_uri r override)"
  by (simp add: find_first_data_uri_def resource_matches_def data_uri_from_wa_eq)

text \<open>
  On the sample archive the empty token list gives the hero image, the first
  sub-resource, and not one of the logos after it.
\<close>

theorem find_first_data_uri_empty_needles_witness:
  "find_first_data_uri (Some wa_two_logos) [] None = Some ''data:image/jpeg;base64,YWJj''"
proof -
  have "spec_data_uri res_hero None = ''data:image/jpeg;base64,YWJj''"
    by (simp add: spec_data_uri_def res_hero_def truthy_def b64_char_def b64_alphabet_def)
  with find_first_data_uri_empty_needles [of res_hero "[res_logo, res_logo_old]" None]
  show ?thesis by (simp add: wa_two_logos_def)
qed

section \<open>Properties of the module's assets\<close>

lemma scan_none_iff:
  "scan_subresources needles mo rs = None \<longleftrightarrow> list_all (\<lambda>r. \<not> resource_matches needles r) rs"
  by (induction rs) auto

lemma find_none_iff:
  "find_first_data_uri f tokens mo = None \<longleftrightarrow> spec_no_match f tokens"
  by (simp add: find_first_data_uri_def spec_no_match_def subresources_def scan_none_iff
        resource_matches_iff split: option.splits)

lemma or_default_None: "or_default None d = d"
  by (simp add: or_default_def)

lemma py_or_None: "py_or None y = y"
  by (simp add: py_or_def truthy_def)

text \<open>
  Claim C7. When no sub-resource matches any token list of an asset's chain of lookups
  (or the archive file cannot be read), the asset is its terminal default: the hardcoded
  absolute URL for the logo and the hero image, \<open>None\<close> for each font; and with no font
  resolved \<open>fontface_blocks\<close> emits no declaration. All of these are values: nothing is
  raised.
\<close>

theorem terminal_defaults:
  "(spec_no_match f [''ubs_'', ''logo'', ''semibold'', ''.svg'']
      \<longrightarrow> LOGO_URI f = ''https://www.ubs.com/etc/designs/fit/img/UBS_Logo_Semibold.svg'')
   \<and> (spec_no_match f [''promotion'', ''image-l'', ''.jpg'']
      \<longrightarrow> HERO_URI f = ''https://www.ubs.com/content/homepage/uk/en/new-promotions/gwr2025/jcr:content/promotion/image-l.3840.jpg/1750249353973.jpg'')
   \<and> (spec_no_match f [''frutiger'', ''-lt'', ''.woff2'']
        \<and> spec_no_match f [''frutiger'', ''light'', ''.woff2'']
      \<longrightarrow> FONT_LT f = None)
   \<and> (spec_no_match f [''frutiger'', ''-rg'', ''.woff2'']
        \<and> spec_no_match f [''frutiger'', ''regular'', ''.woff2'']
        \<and> spec_no_match f [''frutiger'', ''roman'', ''.woff2'']
      \<longrightarrow> FONT_RG f = None)
   \<and> (spec_no_match f [''frutiger'', ''-md'', ''.woff2'']
        \<and> spec_no_match f [''frutiger'', ''medium'', ''.woff2'']
      \<longrightarrow> FONT_MD f = None)
   \<and> (spec_no_match f [''ubs-homepagev3-font-icons'', ''.woff2''] \<longrightarrow> UBS_ICONS f = None)
   \<and> (FONT_LT f = None \<and> FONT_RG f = None \<and> FONT_MD f = None \<and> UBS_ICONS f = None
      \<longrightarrow> fontface_blocks (FONT_LT f) (FONT_RG f) (FONT_MD f) (UBS_ICONS f) = [])"
proof (intro conjI impI)
  assume "spec_no_match f [''ubs_'', ''logo'', ''semibold'', ''.svg'']"
  then have "find_first_data_uri f [''ubs_'', ''logo'', ''semibold'', ''.svg''] None = None"
    by (simp only: find_none_iff)
  then show "LOGO_URI f = ''https://www.ubs.com/etc/designs/fit/img/UBS_Logo_Semibold.svg''"
    unfolding LOGO_URI_def by (simp only: or_default_None)
next
  assume "spec_no_match f [''promotion'', ''image-l'', ''.jpg'']"
  then have "find_first_data_uri f [''promotion'', ''image-l'', ''.jpg''] None = None"
    by (simp only: find_none_iff)
  then show "HERO_URI f = ''https://www.ubs.com/content/homepage/uk/en/new-promotions/gwr2025/jcr:content/promotion/image-l.3840.jpg/1750249353973.jpg''"
    unfolding HERO_URI_def by (simp only: or_default_None)
next
  assume "spec_no_match f [''frutiger'', ''-lt'', ''.woff2'']
        \<and> spec_no_match f [''frutiger'', ''light'', ''.woff2'']"
  then have "find_first_data_uri f [''frutiger'', ''-lt'', ''.woff2''] (Some ''font/woff2'') = None"
    and "find_first_data_uri f [''frutiger'', ''light'', ''.woff2''] (Some ''font/woff2'') = None"
    by (simp_all only: find_none_iff)
  then show "FONT_LT f = None"
    unfolding FONT_LT_def by (simp only: py_or_None)
next
  assume "spec_no_match f [''frutiger'', ''-rg'', ''.woff2'']
        \<and> spec_no_match f [''frutiger'', ''regular'', ''.woff2'']
        \<and> spec_no_match f [''frutiger'', ''roman'', ''.woff2'']"
  then have "find_first_data_uri f [''frutiger'', ''-rg'', ''.woff2''] (Some ''font/woff2'') = None"
    and "find_first_data_uri f [''frutiger'', ''regular'', ''.woff2''] (Some ''font/woff2'') = None"
    and "find_first_data_uri f [''frutiger'', ''roman'', ''.woff2''] (Some ''font/woff2'') = None"
    by (simp_all only: find_none_iff)
  then show "FONT_RG f = None"
    unfolding FONT_RG_def by (simp only: py_or_None)
next
  assume "spec_no_match f [''frutiger'', ''-md'', ''.woff2'']
        \<and> spec_no_match f [''frutiger'', ''medium'', ''.woff2'']"
  then have "find_first_data_uri f [''frutiger'', ''-md'', ''.woff2''] (Some ''font/woff2'') = None"
    and "find_first_data_uri f [''frutiger'', ''medium'', ''.woff2''] (Some ''font/woff2'') = None"
    by (simp_all only: find_none_iff)
  then show "FONT_MD f = None"
    unfolding FONT_MD_def by (simp only: py_or_None)
next
  assume "spec_no_match f [''ubs-homepagev3-font-icons'', ''.woff2'']"
  then show "UBS_ICONS f = None"
    unfolding UBS_ICONS_def by (simp only: find_none_iff)
next
  assume "FONT_LT f = None \<and> FONT_RG f = None \<and> FONT_MD f = None \<and> UBS_ICONS f = None"
  then show "fontface_blocks (FONT_LT f) (FONT_RG f) (FONT_MD f) (UBS_ICONS f) = []"
    by (simp add: fontface_blocks_def fontface_faces_def truthy_def)
qed

lemma hero_only_no_match:
  "spec_no_match (Some wa_hero_only) [''ubs_'', ''logo'', ''semibold'', ''.svg'']"
  "spec_no_match (Some wa_hero_only) [''promotion'', ''image-l'', ''.jpg'']"
  "spec_no_match (Some wa_hero_only) [''frutiger'', ''-lt'', ''.woff2'']"
  "spec_no_match (Some wa_hero_only) [''frutiger'', ''light'', ''.woff2'']"
  "spec_no_match (Some wa_hero_only) [''frutiger'', ''-rg'', ''.woff2'']"
  "spec_no_match (Some wa_hero_only) [''frutiger'', ''regular'', ''.woff2'']"
  "spec_no_match (Some wa_hero_only) [''frutiger'', ''roman'', ''.woff2'']"
  "spec_no_match (Some wa_hero_only) [''frutiger'', ''-md'', ''.woff2'']"
  "spec_no_match (Some wa_hero_only) [''frutiger'', ''medium'', ''.woff2'']"
  "spec_no_match (Some wa_hero_only) [''ubs-homepagev3-font-icons'', ''.woff2'']"
  unfolding spec_no_match_def resource_matches_iff [symmetric] by code_simp+

theorem terminal_defaults_witness:
  "LOGO_URI (Some wa_hero_only) = ''https://www.ubs.com/etc/designs/fit/img/UBS_Logo_Semibold.svg''
   \<and> HERO_URI (Some wa_hero_only) = ''https://www.ubs.com/content/homepage/uk/en/new-promotions/gwr2025/jcr:content/promotion/image-l.3840.jpg/1750249353973.jpg''
   \<and> FONT_LT (Some wa_hero_only) = None \<and> FONT_RG (Some wa_hero_only) = None
   \<and> FONT_MD (Some wa_hero_only) = None \<and> UBS_ICONS (Some wa_hero_only) = None
   \<and> fontface_blocks (FONT_LT (Some wa_hero_only)) (FONT_RG (Some wa_hero_only))
        (FONT_MD (Some wa_hero_only)) (UBS_ICONS (Some wa_hero_only)) = []"
  using terminal_defaults [of "Some wa_hero_only"] hero_only_no_match by blast


section \<open>Properties of fontface_blocks\<close>

lemma font_face_frutiger:
  "font_face ''FrutigerforUBSWeb'' weight ''swap'' (Some uri) = spec_frutiger_face weight uri"
  by (simp add: font_face_def spec_frutiger_face_def fmt_def)

lemma font_face_icons:
  "font_face ''ubs-icons'' ''300'' ''block'' (Some uri) = spec_icons_face uri"
  by (simp add: font_face_def spec_icons_face_def fmt_def)

lemma fontface_faces_eq:
  "fontface_faces lt rg md icons = spec_declarations lt rg md icons"
proof -
  have one: "\<And>x family weight display face.
      (\<And>uri. font_face family weight display (Some uri) = face uri) \<Longrightarrow>
      (if truthy x then [font_face family weight display x] else []) = spec_if_present x face"
    by (simp add: spec_if_present_def truthy_def split: option.splits)
  have absent: "\<not> truthy rg \<longleftrightarrow> spec_if_present rg (spec_frutiger_face ''400'') = []"
    by (simp add: spec_if_present_def truthy_def split: option.splits)
  have "fontface_faces lt rg md icons =
       (if truthy lt then [font_face ''FrutigerforUBSWeb'' ''300'' ''swap'' lt] else [])
     @ (if truthy rg then [font_face ''FrutigerforUBSWeb'' ''400'' ''swap'' rg] else [])
     @ (if truthy md then [font_face ''FrutigerforUBSWeb'' ''500'' ''swap'' md] else [])
     @ (if \<not> truthy rg
        then (if truthy lt then [font_face ''FrutigerforUBSWeb'' ''400'' ''swap'' lt] else [])
        else [])
     @ (if truthy icons then [font_face ''ubs-icons'' ''300'' ''block'' icons] else [])"
    unfolding fontface_faces_def Let_def by simp
  also have "\<dots> = spec_declarations lt rg md icons"
    unfolding spec_declarations_def absent
    by (simp only: one [OF font_face_frutiger] one [OF font_face_icons])
  finally show ?thesis .
qed

lemma py_join_lines: "py_join [CHR 0x0A] ds = spec_lines ds"
proof (induction ds)
  case Nil
  then show ?case by simp
next
  case (Cons d ds)
  then show ?case by (cases ds) simp_all
qed

lemma sublist_spec_lines: "d \<in> set ds \<Longrightarrow> sublist d (spec_lines ds)"
proof -
  assume "d \<in> set ds"
  then obtain pre post where ds: "ds = pre @ d # post"
    by (auto simp: in_set_conv_decomp)
  have tail: "\<And>xs. \<exists>ps ss. concat (map (\<lambda>x. CHR 0x0A # x) (xs @ d # post)) = ps @ d @ ss"
  proof -
    fix xs
    have "concat (map (\<lambda>x. CHR 0x0A # x) (xs @ d # post))
        = (concat (map (\<lambda>x. CHR 0x0A # x) xs) @ [CHR 0x0A]) @ d
          @ concat (map (\<lambda>x. CHR 0x0A # x) post)"
      by simp
    then show "\<exists>ps ss. concat (map (\<lambda>x. CHR 0x0A # x) (xs @ d # post)) = ps @ d @ ss"
      by blast
  qed
  show "sublist d (spec_lines ds)"
  proof (cases pre)
    case Nil
    with ds have "spec_lines ds = [] @ d @ concat (map (\<lambda>x. CHR 0x0A # x) post)"
      by simp
    then show ?thesis unfolding sublist_def by blast
  next
    case (Cons p pre')
    from tail [of pre'] obtain ps ss where
      "concat (map (\<lambda>x. CHR 0x0A # x) (pre' @ d # post)) = ps @ d @ ss"
      by blast
    with ds Cons have "spec_lines ds = (p @ ps) @ d @ ss"
      by simp
    then show ?thesis unfolding sublist_def by blast
  qed
qed

lemma weight_400_in_face: "sublist ''font-weight:400;'' (spec_frutiger_face ''400'' uri)"
proof -
  have "spec_frutiger_face ''400'' uri =
      ''@font-face{font-family:'FrutigerforUBSWeb';font-style:normal;'' @ ''font-weight:400;''
      @ (''font-display:swap;src:url('' @ uri @ '') format('woff2');}'')"
    by (simp add: spec_frutiger_face_def)
  then show ?thesis unfolding sublist_def by blast
qed

lemma weight_400_declared:
  assumes "lt = Some u" and "u \<noteq> []"
  shows "spec_frutiger_face ''400'' (case rg of None \<Rightarrow> u | Some r \<Rightarrow> if r = [] then u else r)
           \<in> set (spec_declarations lt rg md icons)"
  using assms by (cases rg) (simp_all add: spec_declarations_def spec_if_present_def)

text \<open>
  Claim C8. The declarations are emitted in the order light at 300, regular at 400,
  medium at 500, light again at 400 exactly when light is present and regular is absent,
  and the icon font at 300 last, each only when its asset is present; the text
  \<open>fontface_blocks\<close> returns is these declarations, one per line. Whenever light is
  present, the returned text holds a declaration of weight 400.
\<close>

theorem fontface_blocks_order:
  "fontface_faces lt rg md icons = spec_declarations lt rg md icons
   \<and> fontface_blocks lt rg md icons = spec_lines (spec_declarations lt rg md icons)
   \<and> (\<forall>u. lt = Some u \<and> u \<noteq> [] \<longrightarrow>
         sublist ''font-weight:400;'' (fontface_blocks lt rg md icons))"
proof (intro conjI allI impI)
  show "fontface_faces lt rg md icons = spec_declarations lt rg md icons"
    by (rule fontface_faces_eq)
  show blocks: "fontface_blocks lt rg md icons = spec_lines (spec_declarations lt rg md icons)"
    by (simp add: fontface_blocks_def py_join_lines fontface_faces_eq)
  fix u
  assume "lt = Some u \<and> u \<noteq> []"
  then have "spec_frutiger_face ''400'' (case rg of None \<Rightarrow> u | Some r \<Rightarrow> if r = [] then u else r)
           \<in> set (spec_declarations lt rg md icons)"
    by (simp add: weight_400_declared)
  then have "sublist (spec_frutiger_face ''400''
                 (case rg of None \<Rightarrow> u | Some r \<Rightarrow> if r = [] then u else r))
               (fontface_blocks lt rg md icons)"
    unfolding blocks by (rule sublist_spec_lines)
  with weight_400_in_face show "sublist ''font-weight:400;'' (fontface_blocks lt rg md icons)"
    by (rule sublist_order.order_trans)
qed

text \<open>
  The three archives of the specification: all fonts, only light, none. The emitted
  text is written out in full.
\<close>

theorem fontface_blocks_order_witness:
  "fontface_blocks (Some ''L'') (Some ''R'') (Some ''M'') (Some ''I'') =
     ''@font-face{font-family:'FrutigerforUBSWeb';font-style:normal;font-weight:300;font-display:swap;src:url(L) format('woff2');}''
     @ [CHR 0x0A]
     @ ''@font-face{font-family:'FrutigerforUBSWeb';font-style:normal;font-weight:400;font-display:swap;src:url(R) format('woff2');}''
     @ [CHR 0x0A]
     @ ''@font-face{font-family:'FrutigerforUBSWeb';font-style:normal;font-weight:500;font-display:swap;src:url(M) format('woff2');}''
     @ [CHR 0x0A]
     @ ''@font-face{font-family:'ubs-icons';font-style:normal;font-weight:300;font-display:block;src:url(I) format('woff2');}''
   \<and> fontface_blocks (Some ''L'') None None None =
     ''@font-face{font-family:'FrutigerforUBSWeb';font-style:normal;font-weight:300;font-display:swap;src:url(L) format('woff2');}''
     @ [CHR 0x0A]
     @ ''@font-face{font-family:'FrutigerforUBSWeb';font-style:normal;font-weight:400;font-display:swap;src:url(L) format('woff2');}''
   \<and> fontface_blocks None None None None = []
   \<and> sublist ''font-weight:400;'' (fontface_blocks (Some ''L'') None None None)"
proof -
  have a: "fontface_blocks (Some ''L'') (Some ''R'') (Some ''M'') (Some ''I'') =
     ''@font-face{font-family:'FrutigerforUBSWeb';font-style:normal;font-weight:300;font-display:swap;src:url(L) format('woff2');}''
     @ [CHR 0x0A]
     @ ''@font-face{font-family:'FrutigerforUBSWeb';font-style:normal;font-weight:400;font-display:swap;src:url(R) format('woff2');}''
     @ [CHR 0x0A]
     @ ''@font-face{font-family:'FrutigerforUBSWeb';font-style:normal;font-weight:500;font-display:swap;src:url(M) format('woff2');}''
     @ [CHR 0x0A]
     @ ''@font-face{font-family:'ubs-icons';font-style:normal;font-weight:300;font-display:block;src:url(I) format('woff2');}''"
    using fontface_blocks_order [of "Some ''L''" "Some ''R''" "Some ''M''" "Some ''I''"]
    by (simp add: spec_declarations_def spec_if_present_def spec_frutiger_face_def
          spec_icons_face_def)
  have b: "fontface_blocks (Some ''L'') None None None =
     ''@font-face{font-family:'FrutigerforUBSWeb';font-style:normal;font-weight:300;font-display:swap;src:url(L) format('woff2');}''
     @ [CHR 0x0A]
     @ ''@font-face{font-family:'FrutigerforUBSWeb';font-style:normal;font-weight:400;font-display:swap;src:url(L) format('woff2');}''"
    using fontface_blocks_order [of "Some ''L''" None None None]
    by (simp add: spec_declarations_def spec_if_present_def spec_frutiger_face_def
          spec_icons_face_def)
  have c: "fontface_blocks None None None None = []"
    using fontface_blocks_order [of None None None None]
    by (simp add: spec_declarations_def spec_if_present_def)
  have "Some ''L'' = Some ''L'' \<and> ''L'' \<noteq> []" by simp
  with fontface_blocks_order [of "Some ''L''" None None None]
  have d: "sublist ''font-weight:400;'' (fontface_blocks (Some ''L'') None None None)"
    by blast
  from a b c d show ?thesis by (intro conjI)
qed

section \<open>Properties of the catalog filter\<close>

lemma str_in_sublist: "str_in n h = sublist n h"
  by (simp add: str_in_iff sublist_def)

lemma loop_body_Inr:
  "loop_body c app = Inr b \<Longrightarrow> b = spec_passes c app"
  by (auto simp: loop_body_def skip_if_def getitem_def spec_passes_def spec_search_ok_def
        spec_member_ok_def str_in_sublist split: if_splits option.splits sum.splits bool.splits)

lemma skip_if_Some:
  "app key = Some v \<Longrightarrow> skip_if active app key rejects = Inr (active \<and> rejects v)"
  by (simp add: skip_if_def getitem_def)

lemma skip_if_inactive: "skip_if False app key rejects = Inr False"
  by (simp add: skip_if_def)


lemma loop_body_total:
  assumes "has_filter_fields app"
  shows "loop_body c app = Inr (spec_passes c app)"
proof -
  from assms obtain t a b f where
    fields: "app ''title'' = Some t" "app ''ai_type'' = Some a"
      "app ''business_line'' = Some b" "app ''function'' = Some f"
    by (auto simp: has_filter_fields_def)
  show ?thesis
    unfolding loop_body_def
    by (simp add: skip_if_Some [where v = t] skip_if_Some [where v = a]
          skip_if_Some [where v = b] skip_if_Some [where v = f]
          spec_passes_def spec_search_ok_def spec_member_ok_def fields str_in_sublist
        split: bool.splits)
qed

lemma filter_loop_acc:
  "filter_loop c apps acc =
     (case filter_loop c apps [] of Inl e \<Rightarrow> Inl e | Inr out \<Rightarrow> Inr (acc @ out))"
proof (induction apps arbitrary: acc)
  case Nil
  then show ?case by simp
next
  case (Cons app rest)
  show ?case
  proof (cases "loop_body c app")
    case (Inl e)
    then show ?thesis by simp
  next
    case (Inr b)
    show ?thesis
    proof (cases b)
      case True
      with Inr Cons.IH [of "acc @ [app]"] Cons.IH [of "[app]"] show ?thesis
        by (simp split: sum.splits)
    next
      case False
      with Inr Cons.IH [of acc] show ?thesis by simp
    qed
  qed
qed

lemma filtered_apps_Nil: "filtered_apps c [] = Inr []"
  by (simp add: filtered_apps_def)

lemma filtered_apps_Cons:
  "filtered_apps c (app # rest) =
     (case loop_body c app of
        Inl e \<Rightarrow> Inl e
      | Inr b \<Rightarrow>
          (case filtered_apps c rest of
             Inl e \<Rightarrow> Inl e
           | Inr out \<Rightarrow> Inr ((if b then [app] else []) @ out)))"
proof (cases "loop_body c app")
  case (Inl e)
  then show ?thesis by (simp add: filtered_apps_def)
next
  case (Inr b)
  then show ?thesis
    using filter_loop_acc [of c rest "[app]"]
    by (cases b) (simp_all add: filtered_apps_def split: sum.splits)
qed

lemma filtered_apps_Inr:
  "filtered_apps c apps = Inr out \<Longrightarrow> out = filter (spec_passes c) apps"
proof (induction apps arbitrary: out)
  case Nil
  then show ?case by (simp add: filtered_apps_Nil)
next
  case (Cons app rest)
  from Cons.prems obtain b out' where
    b: "loop_body c app = Inr b" and r: "filtered_apps c rest = Inr out'"
    and o: "out = (if b then [app] else []) @ out'"
    by (auto simp: filtered_apps_Cons split: sum.splits)
  from b have "b = spec_passes c app" by (rule loop_body_Inr)
  with Cons.IH [OF r] o show ?case by simp
qed

lemma filtered_apps_total:
  "\<forall>app \<in> set apps. has_filter_fields app \<Longrightarrow>
   filtered_apps c apps = Inr (filter (spec_passes c) apps)"
proof (induction apps)
  case Nil
  then show ?case by (simp add: filtered_apps_Nil)
next
  case (Cons app rest)
  then show ?case
    by (simp add: filtered_apps_Cons loop_body_total)
qed




lemma count_list_filter:
  "count_list (filter P xs) x = (if P x then count_list xs x else 0)"
  by (induction xs) auto

lemma loop_body_no_criteria:
  "search_query c = [] \<Longrightarrow> selected_ai_types c = [] \<Longrightarrow> selected_business_lines c = [] \<Longrightarrow>
   selected_functions c = [] \<Longrightarrow> loop_body c app = Inr True"
  by (simp add: loop_body_def skip_if_inactive)

lemma filtered_apps_no_criteria:
  "search_query c = [] \<Longrightarrow> selected_ai_types c = [] \<Longrightarrow> selected_business_lines c = [] \<Longrightarrow>
   selected_functions c = [] \<Longrightarrow> filtered_apps c apps = Inr apps"
  by (induction apps) (simp_all add: filtered_apps_Nil filtered_apps_Cons loop_body_no_criteria)

lemma sample_fields:
  "has_filter_fields app_risk" "has_filter_fields app_kyc"
  by (simp_all add: has_filter_fields_def app_risk_def app_kyc_def)

lemma sample_distinct: "app_kyc \<noteq> app_risk"
proof
  assume "app_kyc = app_risk"
  then have "app_kyc ''title'' = app_risk ''title''" by simp
  then show False by (simp add: app_kyc_def app_risk_def)
qed

lemma sample_search:
  "str_in (str_lower ''kyc'') (str_lower ''KYC Assistant'')"
  "\<not> str_in (str_lower ''kyc'') (str_lower ''Risk Summarizer'')"
  by code_simp+

lemma sample_kyc:
  "spec_passes crit_kyc app_kyc" "\<not> spec_passes crit_kyc app_risk"
  using sample_search
  by (simp_all add: spec_passes_def spec_search_ok_def spec_member_ok_def crit_kyc_def
        app_kyc_def app_risk_def str_in_sublist)

lemma sample_ib:
  "spec_passes crit_ib app_risk" "\<not> spec_passes crit_ib app_kyc"
  by (simp_all add: spec_passes_def spec_search_ok_def spec_member_ok_def crit_ib_def
        app_kyc_def app_risk_def)

text \<open>
  Claim C2. On a catalog whose records carry the four fields the filter reads, the
  filter returns, and a record is in the output exactly when it is in the catalog and
  the search text is empty or its title contains the search text case-insensitively,
  and each of the three selections is empty or holds the record's value. The same
  characterisation holds of every output the filter returns.
\<close>

theorem filtered_apps_iff:
  "((\<forall>app \<in> set app_cards. has_filter_fields app) \<longrightarrow>
      (\<exists>out. filtered_apps c app_cards = Inr out))
   \<and> (\<forall>out. filtered_apps c app_cards = Inr out \<longrightarrow>
        out = filter (spec_passes c) app_cards
        \<and> (\<forall>app. app \<in> set out \<longleftrightarrow>
              app \<in> set app_cards
              \<and> spec_search_ok c app
              \<and> spec_member_ok (selected_ai_types c) app ''ai_type''
              \<and> spec_member_ok (selected_business_lines c) app ''business_line''
              \<and> spec_member_ok (selected_functions c) app ''function''))"
proof (intro conjI allI impI)
  assume "\<forall>app \<in> set app_cards. has_filter_fields app"
  then show "\<exists>out. filtered_apps c app_cards = Inr out"
    by (simp add: filtered_apps_total)
next
  fix out
  assume "filtered_apps c app_cards = Inr out"
  then show eq: "out = filter (spec_passes c) app_cards"
    by (rule filtered_apps_Inr)
  fix app
  show "app \<in> set out \<longleftrightarrow>
              app \<in> set app_cards
              \<and> spec_search_ok c app
              \<and> spec_member_ok (selected_ai_types c) app ''ai_type''
              \<and> spec_member_ok (selected_business_lines c) app ''business_line''
              \<and> spec_member_ok (selected_functions c) app ''function''"
    unfolding eq by (simp add: spec_passes_def)
qed

theorem filtered_apps_iff_witness:
  "has_filter_fields app_risk \<and> has_filter_fields app_kyc
   \<and> filtered_apps crit_kyc [app_risk, app_kyc] = Inr [app_kyc]
   \<and> filtered_apps crit_ib [app_risk, app_kyc] = Inr [app_risk]"
proof -
  have wf: "\<forall>app \<in> set [app_risk, app_kyc]. has_filter_fields app"
    using sample_fields by simp
  from filtered_apps_iff [of "[app_risk, app_kyc]" crit_kyc] wf
  obtain out where out: "filtered_apps crit_kyc [app_risk, app_kyc] = Inr out"
    and "out = filter (spec_passes crit_kyc) [app_risk, app_kyc]"
    by blast
  then have a: "out = [app_kyc]" using sample_kyc by simp
  from filtered_apps_iff [of "[app_risk, app_kyc]" crit_ib] wf
  obtain out' where out': "filtered_apps crit_ib [app_risk, app_kyc] = Inr out'"
    and "out' = filter (spec_passes crit_ib) [app_risk, app_kyc]"
    by blast
  then have b: "out' = [app_risk]" using sample_ib by simp
  from sample_fields out out' a b show ?thesis by simp
qed

text \<open>
  Claim C3. Every output of the filter is a subsequence of the catalog, and keeps every
  occurrence of a record it keeps; the filter returns on a catalog whose records carry
  the four fields; with an empty search text and three empty selections the output is
  the catalog itself, whatever its records hold.
\<close>

theorem filtered_apps_subseq:
  "(\<forall>out. filtered_apps c app_cards = Inr out \<longrightarrow>
       subseq out app_cards
       \<and> (\<forall>app \<in> set out. count_list out app = count_list app_cards app))
   \<and> ((\<forall>app \<in> set app_cards. has_filter_fields app) \<longrightarrow>
        (\<exists>out. filtered_apps c app_cards = Inr out))
   \<and> (search_query c = [] \<and> selected_ai_types c = [] \<and> selected_business_lines c = []
        \<and> selected_functions c = [] \<longrightarrow> filtered_apps c app_cards = Inr app_cards)"
proof (intro conjI allI impI)
  fix out
  assume "filtered_apps c app_cards = Inr out"
  then have eq: "out = filter (spec_passes c) app_cards"
    by (rule filtered_apps_Inr)
  show "subseq out app_cards"
    unfolding eq by (rule subseq_filter_left)
  show "\<forall>app \<in> set out. count_list out app = count_list app_cards app"
    unfolding eq by (simp add: count_list_filter)
next
  assume "\<forall>app \<in> set app_cards. has_filter_fields app"
  then show "\<exists>out. filtered_apps c app_cards = Inr out"
    by (simp add: filtered_apps_total)
next
  assume "search_query c = [] \<and> selected_ai_types c = [] \<and> selected_business_lines c = []
        \<and> selected_functions c = []"
  then show "filtered_apps c app_cards = Inr app_cards"
    by (simp add: filtered_apps_no_criteria)
qed

theorem filtered_apps_subseq_witness:
  "filtered_apps crit_empty [app_no_title, app_risk, app_no_title]
     = Inr [app_no_title, app_risk, app_no_title]
   \<and> (\<exists>out. filtered_apps crit_ib [app_risk, app_kyc, app_risk] = Inr out
         \<and> subseq out [app_risk, app_kyc, app_risk]
         \<and> count_list out app_risk = 2)"
proof -
  have e: "search_query crit_empty = [] \<and> selected_ai_types crit_empty = []
      \<and> selected_business_lines crit_empty = [] \<and> selected_functions crit_empty = []"
    by (simp add: crit_empty_def)
  have a: "filtered_apps crit_empty [app_no_title, app_risk, app_no_title]
     = Inr [app_no_title, app_risk, app_no_title]"
    using filtered_apps_subseq [of crit_empty "[app_no_title, app_risk, app_no_title]"] e
    by blast
  have wf: "\<forall>app \<in> set [app_risk, app_kyc, app_risk]. has_filter_fields app"
    using sample_fields by simp
  from filtered_apps_subseq [of crit_ib "[app_risk, app_kyc, app_risk]"] wf
  obtain out where out: "filtered_apps crit_ib [app_risk, app_kyc, app_risk] = Inr out"
    by blast
  with filtered_apps_subseq [of crit_ib "[app_risk, app_kyc, app_risk]"]
  have s: "subseq out [app_risk, app_kyc, app_risk]"
    and cnt: "\<forall>app \<in> set out. count_list out app = count_list [app_risk, app_kyc, app_risk] app"
    by blast+
  from out have "out = filter (spec_passes crit_ib) [app_risk, app_kyc, app_risk]"
    by (rule filtered_apps_Inr)
  then have "app_risk \<in> set out" using sample_ib by simp
  with cnt have "count_list out app_risk = 2" using sample_distinct by simp
  with a out s show ?thesis by blast
qed



section \<open>Properties of the card renderer\<close>













section \<open>Records without a function, a business line or an AI type\<close>

lemma sample_optional_fields:
  "get_stripped app_no_function ''business_line'' = ''Investment Bank''"
  "get_stripped app_no_function ''function'' = []"
  "get_stripped app_no_business_line ''business_line'' = []"
  "get_stripped app_no_business_line ''function'' = ''Research''"
  by (simp_all add: get_stripped_def app_no_function_def app_no_business_line_def or_default_def
        str_strip_def is_space_def)

lemma tags_tokens_render_app_card:
  "tags_tokens (render_app_card env generate_blob_sas app) =
     build_tags_tokens (get_stripped app ''business_line'') (get_stripped app ''function'')"
  by (simp add: render_app_card_def Let_def)

text \<open>
  Claim C4. The docstring of \<open>render_app_card\<close> lists \<open>business_line\<close> and
  \<open>function\<close> as optional, and the renderer reads them with a default: a record
  without one of them is rendered, with the tag it has. The filter loop reads the same
  fields by direct indexing: under a non-empty selection on the missing dimension it
  raises \<open>KeyError\<close> and produces no output, where the claim has the record excluded
  and the filtering completed. With no selection the record passes. The AI type is read
  the same way.
\<close>

theorem missing_field_aborts_filter:
  "filtered_apps crit_research [app_no_function] = Inl (KeyError ''function'')
   \<and> tags_tokens (render_app_card env_unset sas_token app_no_function) = [''Investment Bank'']
   \<and> filtered_apps crit_empty [app_no_function] = Inr [app_no_function]
   \<and> filtered_apps crit_ib [app_no_business_line] = Inl (KeyError ''business_line'')
   \<and> tags_tokens (render_app_card env_unset sas_token app_no_business_line) = [''Research'']
   \<and> filtered_apps crit_nlp [app_no_ai_type] = Inl (KeyError ''ai_type'')"
proof (intro conjI)
  show "filtered_apps crit_research [app_no_function] = Inl (KeyError ''function'')"
    by (simp add: filtered_apps_def loop_body_def skip_if_def getitem_def crit_research_def
          app_no_function_def)
  show "tags_tokens (render_app_card env_unset sas_token app_no_function) = [''Investment Bank'']"
    by (simp add: tags_tokens_render_app_card sample_optional_fields build_tags_tokens_def)
  show "filtered_apps crit_empty [app_no_function] = Inr [app_no_function]"
    by (simp add: filtered_apps_no_criteria crit_empty_def)
  show "filtered_apps crit_ib [app_no_business_line] = Inl (KeyError ''business_line'')"
    by (simp add: filtered_apps_def loop_body_def skip_if_def getitem_def crit_ib_def
          app_no_business_line_def)
  show "tags_tokens (render_app_card env_unset sas_token app_no_business_line) = [''Research'']"
    by (simp add: tags_tokens_render_app_card sample_optional_fields build_tags_tokens_def)
  show "filtered_apps crit_nlp [app_no_ai_type] = Inl (KeyError ''ai_type'')"
    by (simp add: filtered_apps_def loop_body_def skip_if_def getitem_def crit_nlp_def
          app_no_ai_type_def)
qed

section \<open>Records without a title\<close>




section \<open>Properties of the search icon\<close>








end
